theory Spec2Isabelle
  imports Complex_Main "HOL-Library.AList" "HOL-Library.Multiset"
begin

section \<open>Values\<close>

text \<open>
  The storage classes of SQLite that \<^verbatim>\<open>database.py\<close> can produce. A REAL is an exact
  real number here: rounding of IEEE doubles is outside the model.
\<close>

datatype sqlval = Null | IntV int | RealV real | TextV string

text \<open>\<^verbatim>\<open>datetime.datetime\<close>; the fields are those of the Python class.\<close>

record datetime =
  year :: nat
  month :: nat
  day :: nat
  hour :: nat
  minute :: nat
  second :: nat
  microsecond :: nat

text \<open>
  The Python values that the methods receive and return. \<^verbatim>\<open>bool\<close> is a subclass of
  \<^verbatim>\<open>int\<close> (\<open>True\<close> is \<open>PInt 1\<close>).
\<close>

datatype pyval = PNone | PInt int | PFloat real | PStr string | PDatetime datetime

definition digit :: "nat \<Rightarrow> char" where
  "digit d = ''0123456789'' ! (d mod 10)"

text \<open>Zero-padded decimal of width \<open>w\<close> (\<^verbatim>\<open>"%0wd"\<close>), exact for \<open>n < 10 ^ w\<close>.\<close>

fun zpad :: "nat \<Rightarrow> nat \<Rightarrow> string" where
  "zpad 0 n = []"
| "zpad (Suc w) n = zpad w (n div 10) @ [digit n]"

text \<open>\<^verbatim>\<open>date.isoformat()\<close>: \<^verbatim>\<open>YYYY-MM-DD\<close>.\<close>

definition iso_date :: "datetime \<Rightarrow> string" where
  "iso_date d = zpad 4 (year d) @ ''-'' @ zpad 2 (month d) @ ''-'' @ zpad 2 (day d)"

text \<open>\<^verbatim>\<open>datetime.isoformat(" ")\<close>: the microseconds are printed only when they are not zero.\<close>

definition isoformat :: "datetime \<Rightarrow> string" where
  "isoformat d =
     iso_date d @ '' '' @ zpad 2 (hour d) @ '':'' @ zpad 2 (minute d) @ '':'' @ zpad 2 (second d)
       @ (if microsecond d = 0 then [] else ''.'' @ zpad 6 (microsecond d))"

text \<open>
  Parameter binding of the \<^verbatim>\<open>sqlite3\<close> module: \<^verbatim>\<open>None\<close>, \<^verbatim>\<open>int\<close>, \<^verbatim>\<open>float\<close> and
  \<^verbatim>\<open>str\<close> map to their storage class, a \<^verbatim>\<open>datetime\<close> goes through the default adapter,
  which stores its ISO text.
\<close>

fun bind :: "pyval \<Rightarrow> sqlval" where
  "bind PNone = Null"
| "bind (PInt n) = IntV n"
| "bind (PFloat x) = RealV x"
| "bind (PStr s) = TextV s"
| "bind (PDatetime d) = TextV (isoformat d)"

text \<open>
  What a fetched row holds. \<^verbatim>\<open>init_connection\<close> calls \<^verbatim>\<open>sqlite3.connect(self.db_path)\<close>
  with no \<^verbatim>\<open>detect_types\<close>, so no converter runs: a TIMESTAMP column comes back as the
  \<^verbatim>\<open>str\<close> that was stored.
\<close>

fun fetch :: "sqlval \<Rightarrow> pyval" where
  "fetch Null = PNone"
| "fetch (IntV n) = PInt n"
| "fetch (RealV x) = PFloat x"
| "fetch (TextV s) = PStr s"

text \<open>Python truthiness, as tested by \<^verbatim>\<open>if x:\<close>.\<close>

fun truthy :: "pyval \<Rightarrow> bool" where
  "truthy PNone = False"
| "truthy (PInt n) = (n \<noteq> 0)"
| "truthy (PFloat x) = (x \<noteq> 0)"
| "truthy (PStr s) = (s \<noteq> [])"
| "truthy (PDatetime d) = True"

section \<open>Comparison of stored values\<close>

text \<open>BINARY collation: bytewise comparison of the two texts.\<close>

fun str_le :: "string \<Rightarrow> string \<Rightarrow> bool" where
  "str_le [] t = True"
| "str_le (a # s) [] = False"
| "str_le (a # s) (b # t) = (if a = b then str_le s t else (of_char a :: nat) < of_char b)"

text \<open>
  The order of SQLite across storage classes: NULL first, then the numbers by value,
  then the texts.
\<close>

fun sql_le :: "sqlval \<Rightarrow> sqlval \<Rightarrow> bool" where
  "sql_le Null b = True"
| "sql_le a Null = False"
| "sql_le (TextV s) (TextV t) = str_le s t"
| "sql_le (TextV s) b = False"
| "sql_le a (TextV t) = True"
| "sql_le (IntV m) (IntV n) = (m \<le> n)"
| "sql_le (IntV m) (RealV y) = (real_of_int m \<le> y)"
| "sql_le (RealV x) (IntV n) = (x \<le> real_of_int n)"
| "sql_le (RealV x) (RealV y) = (x \<le> y)"

text \<open>
  Comparison operators in a WHERE clause: a comparison with NULL is unknown, and the row
  is not selected.
\<close>

definition sql_ge :: "sqlval \<Rightarrow> sqlval \<Rightarrow> bool" where
  "sql_ge a b = (a \<noteq> Null \<and> b \<noteq> Null \<and> sql_le b a)"

definition sql_eq :: "sqlval \<Rightarrow> sqlval \<Rightarrow> bool" where
  "sql_eq a b = (a \<noteq> Null \<and> b \<noteq> Null \<and> sql_le a b \<and> sql_le b a)"

section \<open>Tables\<close>

text \<open>
  A row is the association list that \<^verbatim>\<open>dict(row)\<close> is built from, in column order; a
  column that a row does not have reads as NULL. A table is its rows in rowid order
  together with the counter that AUTOINCREMENT keeps in \<^verbatim>\<open>sqlite_sequence\<close>.
\<close>

type_synonym row = "(string \<times> sqlval) list"

record table =
  rows :: "row list"
  seq :: int

definition col :: "row \<Rightarrow> string \<Rightarrow> sqlval" where
  "col r c = (case map_of r c of Some v \<Rightarrow> v | None \<Rightarrow> Null)"

datatype affinity = TEXT | INTEGER | REAL | NUMERIC

datatype dflt = NoDefault | Default sqlval | CURRENT_TIMESTAMP

record column =
  cname :: string
  affinity :: affinity
  not_null :: bool
  unique :: bool
  check_in :: "string list option"
  dflt :: dflt

record schema =
  pkey :: string
  columns :: "column list"

definition column :: "string \<Rightarrow> affinity \<Rightarrow> column" where
  "column n a = \<lparr>cname = n, affinity = a, not_null = False, unique = False,
                 check_in = None, dflt = NoDefault\<rparr>"

definition NOT_NULL :: "column \<Rightarrow> column" where
  "NOT_NULL c = c\<lparr>not_null := True\<rparr>"

definition UNIQUE :: "column \<Rightarrow> column" where
  "UNIQUE c = c\<lparr>unique := True\<rparr>"

definition CHECK_IN :: "string list \<Rightarrow> column \<Rightarrow> column" where
  "CHECK_IN vs c = c\<lparr>check_in := Some vs\<rparr>"

definition DEFAULT :: "dflt \<Rightarrow> column \<Rightarrow> column" where
  "DEFAULT v c = c\<lparr>dflt := v\<rparr>"

text \<open>
  Column affinity, applied to a value before it is stored. The conversions between the
  numeric classes are modelled: a REAL column stores an integer as a real, an INTEGER or
  NUMERIC column stores a real without fractional part as an integer. The conversions
  between texts and numbers (a numeric-looking \<^verbatim>\<open>str\<close> given for a numeric column, a
  number given for a TEXT column) need the printing and parsing of doubles and are not
  modelled: such a value is stored as it was bound. The ISO texts of dates are not
  numeric-looking, so SQLite stores them unchanged as well.
\<close>

fun apply_affinity :: "affinity \<Rightarrow> sqlval \<Rightarrow> sqlval" where
  "apply_affinity REAL (IntV n) = RealV (real_of_int n)"
| "apply_affinity INTEGER (RealV x) = (if x = real_of_int \<lfloor>x\<rfloor> then IntV \<lfloor>x\<rfloor> else RealV x)"
| "apply_affinity NUMERIC (RealV x) = (if x = real_of_int \<lfloor>x\<rfloor> then IntV \<lfloor>x\<rfloor> else RealV x)"
| "apply_affinity a v = v"

text \<open>\<^verbatim>\<open>CURRENT_TIMESTAMP\<close>: the UTC clock, to the second.\<close>

definition utc_timestamp :: "datetime \<Rightarrow> string" where
  "utc_timestamp now = isoformat (now\<lparr>microsecond := 0\<rparr>)"

definition current_timestamp :: "datetime \<Rightarrow> sqlval" where
  "current_timestamp now = TextV (utc_timestamp now)"

fun default_value :: "datetime \<Rightarrow> dflt \<Rightarrow> sqlval" where
  "default_value now NoDefault = Null"
| "default_value now (Default v) = v"
| "default_value now CURRENT_TIMESTAMP = current_timestamp now"

subsection \<open>Constraints\<close>

datatype constraint = NotNull string | Check string | Unique string

text \<open>
  \<^verbatim>\<open>sqlite3.IntegrityError\<close>, the exception that the \<^verbatim>\<open>create_*\<close> methods print and
  re-raise and that the \<^verbatim>\<open>update_*\<close> methods catch as a \<^verbatim>\<open>sqlite3.Error\<close>.
\<close>

datatype db_error = IntegrityError constraint

text \<open>
  \<^verbatim>\<open>CHECK(c IN (...))\<close> fails only when the expression is false; on NULL it is unknown
  and the row passes.
\<close>

definition check_ok :: "column \<Rightarrow> sqlval \<Rightarrow> bool" where
  "check_ok c v =
     (case check_in c of
        None \<Rightarrow> True
      | Some vs \<Rightarrow> (case v of Null \<Rightarrow> True | TextV s \<Rightarrow> s \<in> set vs | _ \<Rightarrow> False))"

text \<open>
  The constraint that row \<open>r\<close> violates against the other rows, if any, among the columns
  \<open>cs\<close> that the statement writes. SQLite tests the NOT NULL constraints first, then the
  CHECK constraints, then the UNIQUE indexes. No FOREIGN KEY clause is tested: SQLite
  enforces them only on a connection that has run \<^verbatim>\<open>PRAGMA foreign_keys = ON\<close>, which
  \<^verbatim>\<open>init_connection\<close> never does.
\<close>

definition violated :: "column list \<Rightarrow> row list \<Rightarrow> row \<Rightarrow> constraint option" where
  "violated cs others r =
     (case find (\<lambda>c. not_null c \<and> col r (cname c) = Null) cs of
        Some c \<Rightarrow> Some (NotNull (cname c))
      | None \<Rightarrow>
     (case find (\<lambda>c. \<not> check_ok c (col r (cname c))) cs of
        Some c \<Rightarrow> Some (Check (cname c))
      | None \<Rightarrow>
     (case find (\<lambda>c. unique c \<and> list_ex (\<lambda>r'. sql_eq (col r' (cname c)) (col r (cname c))) others) cs of
        Some c \<Rightarrow> Some (Unique (cname c))
      | None \<Rightarrow> None)))"

subsection \<open>INSERT\<close>

definition rowid :: "string \<Rightarrow> row \<Rightarrow> int" where
  "rowid pk r = (case col r pk of IntV n \<Rightarrow> n | _ \<Rightarrow> 0)"

text \<open>
  \<^verbatim>\<open>INTEGER PRIMARY KEY AUTOINCREMENT\<close>: one more than the largest rowid that the table
  holds or has ever held. (The rowids are unbounded here; SQLite fails with SQLITE_FULL
  past \<open>2^63 - 1\<close>, which no sequence of calls of this module reaches.)
\<close>

definition next_rowid :: "string \<Rightarrow> table \<Rightarrow> int" where
  "next_rowid pk t = 1 + fold max (map (rowid pk) (rows t)) (max 0 (seq t))"

text \<open>
  The row that an INSERT naming the columns of \<open>params\<close> builds: a named column takes the
  bound value (also when it is NULL), any other column its default.
\<close>

definition new_row :: "schema \<Rightarrow> datetime \<Rightarrow> int \<Rightarrow> (string \<times> sqlval) list \<Rightarrow> row" where
  "new_row sch now rid params =
     (pkey sch, IntV rid) #
     map (\<lambda>c. (cname c,
                apply_affinity (affinity c)
                  (case map_of params (cname c) of
                     Some v \<Rightarrow> v
                   | None \<Rightarrow> default_value now (dflt c))))
         (columns sch)"

text \<open>
  \<^verbatim>\<open>cursor.execute('INSERT INTO ...')\<close>, \<^verbatim>\<open>conn.commit()\<close> and \<^verbatim>\<open>cursor.lastrowid\<close>.
  A constraint failure aborts the statement, which leaves the table as it was.
\<close>

definition insert_row ::
  "schema \<Rightarrow> datetime \<Rightarrow> (string \<times> sqlval) list \<Rightarrow> table \<Rightarrow> db_error + (int \<times> table)" where
  "insert_row sch now params t =
     (let rid = next_rowid (pkey sch) t;
          r = new_row sch now rid params
      in case violated (columns sch) (rows t) r of
           Some c \<Rightarrow> Inl (IntegrityError c)
         | None \<Rightarrow> Inr (rid, \<lparr>rows = rows t @ [r], seq = rid\<rparr>))"

subsection \<open>SELECT\<close>

text \<open>\<^verbatim>\<open>SELECT * FROM t WHERE pk = ?\<close> with \<^verbatim>\<open>fetchone()\<close>.\<close>

definition select_by_id :: "string \<Rightarrow> int \<Rightarrow> table \<Rightarrow> row option" where
  "select_by_id pk i t = find (\<lambda>r. col r pk = IntV i) (rows t)"

text \<open>\<^verbatim>\<open>dict(row)\<close>.\<close>

definition dict :: "row \<Rightarrow> (string \<times> pyval) list" where
  "dict r = map (\<lambda>(c, v). (c, fetch v)) r"

text \<open>
  \<^verbatim>\<open>ORDER BY c DESC\<close>. SQLite leaves the order of rows with equal keys open; here they
  keep their rowid order.
\<close>

fun insert_desc :: "string \<Rightarrow> row \<Rightarrow> row list \<Rightarrow> row list" where
  "insert_desc c r [] = [r]"
| "insert_desc c r (x # xs) =
     (if sql_le (col x c) (col r c) then r # x # xs else x # insert_desc c r xs)"

definition order_by_desc :: "string \<Rightarrow> row list \<Rightarrow> row list" where
  "order_by_desc c rs = foldr (insert_desc c) rs []"

subsection \<open>UPDATE\<close>

text \<open>\<^verbatim>\<open>SET c1 = ?, c2 = ?, ...\<close> on one row, each value under the affinity of its column.\<close>

definition store :: "schema \<Rightarrow> string \<Rightarrow> sqlval \<Rightarrow> sqlval" where
  "store sch c v =
     (case find (\<lambda>k. cname k = c) (columns sch) of
        Some k \<Rightarrow> apply_affinity (affinity k) v
      | None \<Rightarrow> v)"

definition assign :: "schema \<Rightarrow> (string \<times> sqlval) list \<Rightarrow> row \<Rightarrow> row" where
  "assign sch sets r = fold (\<lambda>(c, v) r'. AList.update c (store sch c v) r') sets r"

text \<open>
  \<^verbatim>\<open>UPDATE t SET ... WHERE pk = ?\<close>, row by row in rowid order: \<open>done\<close> are the rows
  already visited. Only the constraints of the columns that the statement sets are
  tested, against the table as it is at that moment; a failure aborts the whole statement.
\<close>

fun update_rows ::
  "schema \<Rightarrow> (string \<times> sqlval) list \<Rightarrow> int \<Rightarrow> row list \<Rightarrow> row list \<Rightarrow> db_error + row list" where
  "update_rows sch sets i done [] = Inr done"
| "update_rows sch sets i done (r # rs) =
     (if col r (pkey sch) = IntV i then
        (let r' = assign sch sets r
         in case violated (filter (\<lambda>c. cname c \<in> set (map fst sets)) (columns sch)) (done @ rs) r' of
              Some c \<Rightarrow> Inl (IntegrityError c)
            | None \<Rightarrow> update_rows sch sets i (done @ [r']) rs)
      else update_rows sch sets i (done @ [r]) rs)"

text \<open>
  The body shared by the five \<^verbatim>\<open>update_*\<close> methods: keep the allow-listed keyword
  arguments, return False when none is left, otherwise stamp \<^verbatim>\<open>updated_at\<close> with
  \<^verbatim>\<open>datetime.utcnow()\<close>, run the UPDATE and return True, or False when
  \<^verbatim>\<open>sqlite3.Error\<close> was caught.
\<close>

definition update_table ::
  "string list \<Rightarrow> schema \<Rightarrow> datetime \<Rightarrow> int \<Rightarrow> (string \<times> pyval) list \<Rightarrow> table \<Rightarrow> bool \<times> table" where
  "update_table allowed_fields sch now i kwargs t =
     (let updates = filter (\<lambda>(k, v). k \<in> set allowed_fields) kwargs
      in if updates = [] then (False, t)
         else
           (let updates' = updates @ [(''updated_at'', PDatetime now)]
            in case update_rows sch (map (\<lambda>(k, v). (k, bind v)) updates') i [] (rows t) of
                 Inl e \<Rightarrow> (False, t)
               | Inr rs \<Rightarrow> (True, t\<lparr>rows := rs\<rparr>)))"

section \<open>The schema of \<^verbatim>\<open>create_tables\<close>\<close>

text \<open>
  One schema for each table, the columns in the order of the CREATE TABLE statement.
  The declared types BOOLEAN, TIMESTAMP and DATE have NUMERIC affinity.
\<close>

definition users_schema :: schema where
  "users_schema = \<lparr>pkey = ''user_id'', columns =
     [NOT_NULL (UNIQUE (column ''username'' TEXT)),
      NOT_NULL (UNIQUE (column ''email'' TEXT)),
      NOT_NULL (column ''password_hash'' TEXT),
      NOT_NULL (column ''full_name'' TEXT),
      UNIQUE (column ''badge_number'' TEXT),
      CHECK_IN [''admin'', ''officer'', ''supervisor'', ''analyst''] (NOT_NULL (column ''role'' TEXT)),
      column ''department'' TEXT,
      column ''phone_number'' TEXT,
      DEFAULT (Default (IntV 1)) (column ''is_active'' NUMERIC),
      DEFAULT CURRENT_TIMESTAMP (column ''created_at'' NUMERIC),
      DEFAULT CURRENT_TIMESTAMP (column ''updated_at'' NUMERIC)]\<rparr>"

definition violations_schema :: schema where
  "violations_schema = \<lparr>pkey = ''violation_id'', columns =
     [NOT_NULL (UNIQUE (column ''violation_number'' TEXT)),
      NOT_NULL (column ''violator_name'' TEXT),
      column ''violator_license_number'' TEXT,
      column ''violator_phone'' TEXT,
      column ''violator_address'' TEXT,
      NOT_NULL (column ''violation_date'' NUMERIC),
      CHECK_IN [''traffic'', ''parking'', ''criminal'', ''administrative'', ''other'']
        (NOT_NULL (column ''violation_type'' TEXT)),
      CHECK_IN [''minor'', ''moderate'', ''serious'', ''critical'']
        (NOT_NULL (column ''severity_level'' TEXT)),
      column ''description'' TEXT,
      NOT_NULL (column ''location'' TEXT),
      column ''latitude'' REAL,
      column ''longitude'' REAL,
      NOT_NULL (column ''officer_id'' INTEGER),
      CHECK_IN [''open'', ''closed'', ''appealed'', ''dismissed'', ''resolved'']
        (DEFAULT (Default (TextV ''open'')) (NOT_NULL (column ''status'' TEXT))),
      column ''fine_amount'' REAL,
      column ''paid_date'' NUMERIC,
      column ''notes'' TEXT,
      DEFAULT (Default (IntV 0)) (column ''evidence_count'' INTEGER),
      DEFAULT CURRENT_TIMESTAMP (column ''created_at'' NUMERIC),
      DEFAULT CURRENT_TIMESTAMP (column ''updated_at'' NUMERIC)]\<rparr>"

definition seizures_schema :: schema where
  "seizures_schema = \<lparr>pkey = ''seizure_id'', columns =
     [NOT_NULL (UNIQUE (column ''seizure_number'' TEXT)),
      NOT_NULL (column ''violation_id'' INTEGER),
      NOT_NULL (column ''item_description'' TEXT),
      DEFAULT (Default (IntV 1)) (NOT_NULL (column ''item_quantity'' INTEGER)),
      CHECK_IN [''vehicle'', ''documents'', ''contraband'', ''weapon'', ''currency'', ''other'']
        (NOT_NULL (column ''item_category'' TEXT)),
      column ''estimated_value'' REAL,
      column ''serial_number'' TEXT,
      column ''storage_location'' TEXT,
      NOT_NULL (column ''officer_id'' INTEGER),
      NOT_NULL (column ''seizure_date'' NUMERIC),
      column ''release_date'' NUMERIC,
      column ''release_authorized_by'' INTEGER,
      column ''release_reason'' TEXT,
      CHECK_IN [''stored'', ''released'', ''destroyed'', ''auctioned'', ''pending'']
        (DEFAULT (Default (TextV ''stored'')) (NOT_NULL (column ''status'' TEXT))),
      column ''condition_notes'' TEXT,
      column ''photo_evidence_urls'' TEXT,
      DEFAULT CURRENT_TIMESTAMP (column ''created_at'' NUMERIC),
      DEFAULT CURRENT_TIMESTAMP (column ''updated_at'' NUMERIC)]\<rparr>"

definition infractions_schema :: schema where
  "infractions_schema = \<lparr>pkey = ''infraction_id'', columns =
     [NOT_NULL (UNIQUE (column ''infraction_number'' TEXT)),
      NOT_NULL (column ''violation_id'' INTEGER),
      NOT_NULL (column ''infraction_type'' TEXT),
      DEFAULT (Default (IntV 0)) (column ''points'' INTEGER),
      column ''description'' TEXT,
      column ''statute_reference'' TEXT,
      column ''minimum_fine'' REAL,
      column ''maximum_fine'' REAL,
      CHECK_IN [''pending'', ''contested'', ''resolved'', ''dismissed'', ''appealed'']
        (DEFAULT (Default (TextV ''pending'')) (NOT_NULL (column ''status'' TEXT))),
      column ''court_appearance_date'' NUMERIC,
      column ''court_location'' TEXT,
      column ''case_number'' TEXT,
      column ''prosecutor_id'' INTEGER,
      column ''judge_id'' INTEGER,
      column ''outcome'' TEXT,
      column ''sentence_details'' TEXT,
      column ''probation_period_months'' INTEGER,
      DEFAULT CURRENT_TIMESTAMP (column ''created_at'' NUMERIC),
      DEFAULT CURRENT_TIMESTAMP (column ''updated_at'' NUMERIC)]\<rparr>"

definition evidence_schema :: schema where
  "evidence_schema = \<lparr>pkey = ''evidence_id'', columns =
     [NOT_NULL (UNIQUE (column ''evidence_number'' TEXT)),
      NOT_NULL (column ''violation_id'' INTEGER),
      CHECK_IN [''photo'', ''video'', ''audio'', ''document'', ''physical'', ''digital'',
                ''witness_statement'']
        (NOT_NULL (column ''evidence_type'' TEXT)),
      NOT_NULL (column ''description'' TEXT),
      column ''file_path'' TEXT,
      column ''file_size'' INTEGER,
      column ''mime_type'' TEXT,
      NOT_NULL (column ''collected_by'' INTEGER),
      NOT_NULL (column ''collection_date'' NUMERIC),
      column ''collection_location'' TEXT,
      column ''chain_of_custody'' TEXT,
      column ''storage_location'' TEXT,
      CHECK_IN [''stored'', ''destroyed'', ''released'', ''lost'', ''pending'']
        (DEFAULT (Default (TextV ''stored'')) (NOT_NULL (column ''status'' TEXT))),
      column ''notes'' TEXT,
      DEFAULT CURRENT_TIMESTAMP (column ''created_at'' NUMERIC),
      DEFAULT CURRENT_TIMESTAMP (column ''updated_at'' NUMERIC)]\<rparr>"

definition activity_log_schema :: schema where
  "activity_log_schema = \<lparr>pkey = ''log_id'', columns =
     [NOT_NULL (column ''user_id'' INTEGER),
      NOT_NULL (column ''action_type'' TEXT),
      column ''entity_type'' TEXT,
      column ''entity_id'' INTEGER,
      column ''description'' TEXT,
      column ''changes'' TEXT,
      column ''ip_address'' TEXT,
      DEFAULT CURRENT_TIMESTAMP (column ''timestamp'' NUMERIC)]\<rparr>"

section \<open>The database\<close>

text \<open>
  A row of the \<^verbatim>\<open>statistics\<close> table, by column. The three columns that hold the text
  of a \<^verbatim>\<open>json.dumps\<close> are kept as the Python value that was serialised.
\<close>

record stat_row =
  stat_id :: int
  date :: string
  total_violations :: int
  total_seizures :: int
  total_infractions :: int
  total_fines :: real
  violations_by_type :: "(pyval \<times> nat) list"
  violations_by_severity :: "(pyval \<times> nat) list"
  top_violators :: "string option"
  officer_performance :: "(string \<times> pyval) list list"
  created_at :: string
  updated_at :: string

record stat_table =
  stat_rows :: "stat_row list"
  stat_seq :: int

text \<open>The tables that \<^verbatim>\<open>Database\<close> reads and writes through its one connection.\<close>

record db =
  users :: table
  violations :: table
  seizures :: table
  infractions :: table
  evidence :: table
  activity_log :: table
  statistics :: stat_table

text \<open>
  Every method takes the database and returns it with its result. The methods that read
  the clock (\<^verbatim>\<open>CURRENT_TIMESTAMP\<close> in a column default, \<^verbatim>\<open>datetime.utcnow()\<close>) take the
  time \<open>now\<close> as well. The parameters have the types of the signatures: \<^verbatim>\<open>str\<close> is
  \<open>string\<close>, \<^verbatim>\<open>int\<close> is \<open>int\<close>, \<^verbatim>\<open>float\<close> is \<open>real\<close>, \<^verbatim>\<open>datetime\<close> is
  \<open>datetime\<close>, and a parameter with default \<^verbatim>\<open>None\<close> is an option. The keyword
  arguments of the \<^verbatim>\<open>update_*\<close> methods are a dictionary of arbitrary values.
\<close>

fun optional :: "('a \<Rightarrow> pyval) \<Rightarrow> 'a option \<Rightarrow> pyval" where
  "optional f None = PNone"
| "optional f (Some x) = f x"

text \<open>
  \<^verbatim>\<open>execute\<close> of an INSERT with the tuple of Python values, \<^verbatim>\<open>commit\<close>, and
  \<^verbatim>\<open>return self.cursor.lastrowid\<close>; \<open>Inl\<close> is the \<^verbatim>\<open>sqlite3.IntegrityError\<close> that
  the method re-raises.
\<close>

definition execute_insert ::
  "schema \<Rightarrow> datetime \<Rightarrow> (string \<times> pyval) list \<Rightarrow> table \<Rightarrow> (db_error + int) \<times> table" where
  "execute_insert sch now params t =
     (case insert_row sch now (map (\<lambda>(c, v). (c, bind v)) params) t of
        Inl e \<Rightarrow> (Inl e, t)
      | Inr (rid, t') \<Rightarrow> (Inr rid, t'))"

text \<open>\<^verbatim>\<open>fetchone()\<close> and \<^verbatim>\<open>dict(row) if row else None\<close>.\<close>

definition fetch_one :: "string \<Rightarrow> int \<Rightarrow> table \<Rightarrow> (string \<times> pyval) list option" where
  "fetch_one pk i t = map_option dict (select_by_id pk i t)"

text \<open>\<^verbatim>\<open>row['c']\<close> on a fetched row.\<close>

definition item :: "(string \<times> pyval) list \<Rightarrow> string \<Rightarrow> pyval" where
  "item d c = (case map_of d c of Some v \<Rightarrow> v | None \<Rightarrow> PNone)"

subsection \<open>Queries built from optional filters\<close>

datatype cond = Eq string sqlval | Ge string sqlval | Le string sqlval

fun holds :: "row \<Rightarrow> cond \<Rightarrow> bool" where
  "holds r (Eq c v) = sql_eq (col r c) v"
| "holds r (Ge c v) = sql_ge (col r c) v"
| "holds r (Le c v) = sql_ge v (col r c)"

text \<open>\<^verbatim>\<open>if x: query += ' AND c op ?'; params.append(x)\<close>.\<close>

definition where_if :: "pyval \<Rightarrow> (sqlval \<Rightarrow> cond) \<Rightarrow> cond list" where
  "where_if x k = (if truthy x then [k (bind x)] else [])"

text \<open>\<^verbatim>\<open>SELECT * FROM t WHERE 1=1 AND ...\<close>, the rows in rowid order.\<close>

definition select :: "cond list \<Rightarrow> table \<Rightarrow> row list" where
  "select conds t = filter (\<lambda>r. list_all (holds r) conds) (rows t)"

text \<open>\<^verbatim>\<open>LIMIT ?\<close>; a negative limit is no limit.\<close>

definition sql_limit :: "int \<Rightarrow> 'a list \<Rightarrow> 'a list" where
  "sql_limit n xs = (if n < 0 then xs else take (nat n) xs)"

section \<open>User management\<close>




definition user_allowed_fields :: "string list" where
  "user_allowed_fields =
     [''email'', ''full_name'', ''badge_number'', ''role'', ''department'', ''phone_number'',
      ''is_active'']"

definition update_user :: "db \<Rightarrow> datetime \<Rightarrow> int \<Rightarrow> (string \<times> pyval) list \<Rightarrow> bool \<times> db" where
  "update_user d now user_id kwargs =
     (case update_table user_allowed_fields users_schema now user_id kwargs (users d) of
        (res, t) \<Rightarrow> (res, d\<lparr>users := t\<rparr>))"

section \<open>Violations management\<close>

definition violation_params ::
  "string \<Rightarrow> string \<Rightarrow> datetime \<Rightarrow> string \<Rightarrow> string \<Rightarrow> string \<Rightarrow> int \<Rightarrow> string option \<Rightarrow>
   string option \<Rightarrow> string option \<Rightarrow> string option \<Rightarrow> real option \<Rightarrow> real option \<Rightarrow>
   real option \<Rightarrow> (string \<times> pyval) list" where
  "violation_params violation_number violator_name violation_date violation_type severity_level
       location officer_id violator_license_number violator_phone violator_address description
       latitude longitude fine_amount =
     [(''violation_number'', PStr violation_number), (''violator_name'', PStr violator_name),
      (''violation_date'', PDatetime violation_date), (''violation_type'', PStr violation_type),
      (''severity_level'', PStr severity_level), (''location'', PStr location),
      (''officer_id'', PInt officer_id),
      (''violator_license_number'', optional PStr violator_license_number),
      (''violator_phone'', optional PStr violator_phone),
      (''violator_address'', optional PStr violator_address),
      (''description'', optional PStr description), (''latitude'', optional PFloat latitude),
      (''longitude'', optional PFloat longitude), (''fine_amount'', optional PFloat fine_amount)]"

definition create_violation ::
  "db \<Rightarrow> datetime \<Rightarrow> string \<Rightarrow> string \<Rightarrow> datetime \<Rightarrow> string \<Rightarrow> string \<Rightarrow> string \<Rightarrow> int \<Rightarrow>
   string option \<Rightarrow> string option \<Rightarrow> string option \<Rightarrow> string option \<Rightarrow> real option \<Rightarrow>
   real option \<Rightarrow> real option \<Rightarrow> (db_error + int) \<times> db" where
  "create_violation d now violation_number violator_name violation_date violation_type
       severity_level location officer_id violator_license_number violator_phone violator_address
       description latitude longitude fine_amount =
     (case execute_insert violations_schema now
             (violation_params violation_number violator_name violation_date violation_type
                severity_level location officer_id violator_license_number violator_phone
                violator_address description latitude longitude fine_amount) (violations d) of
        (res, t) \<Rightarrow> (res, d\<lparr>violations := t\<rparr>))"

definition get_violation :: "db \<Rightarrow> int \<Rightarrow> (string \<times> pyval) list option" where
  "get_violation d violation_id = fetch_one ''violation_id'' violation_id (violations d)"

definition violation_allowed_fields :: "string list" where
  "violation_allowed_fields =
     [''violator_name'', ''violator_license_number'', ''violator_phone'', ''violator_address'',
      ''violation_type'', ''severity_level'', ''description'', ''location'', ''latitude'',
      ''longitude'', ''status'', ''fine_amount'', ''paid_date'', ''notes'']"

definition update_violation :: "db \<Rightarrow> datetime \<Rightarrow> int \<Rightarrow> (string \<times> pyval) list \<Rightarrow> bool \<times> db" where
  "update_violation d now violation_id kwargs =
     (case update_table violation_allowed_fields violations_schema now violation_id kwargs
             (violations d) of
        (res, t) \<Rightarrow> (res, d\<lparr>violations := t\<rparr>))"

definition list_violations ::
  "db \<Rightarrow> int option \<Rightarrow> string option \<Rightarrow> string option \<Rightarrow> string option \<Rightarrow> datetime option \<Rightarrow>
   datetime option \<Rightarrow> (string \<times> pyval) list list" where
  "list_violations d officer_id status violation_type severity_level start_date end_date =
     map dict
       (order_by_desc ''violation_date''
          (select
             (where_if (optional PInt officer_id) (Eq ''officer_id'') @
              where_if (optional PStr status) (Eq ''status'') @
              where_if (optional PStr violation_type) (Eq ''violation_type'') @
              where_if (optional PStr severity_level) (Eq ''severity_level'') @
              where_if (optional PDatetime start_date) (Ge ''violation_date'') @
              where_if (optional PDatetime end_date) (Le ''violation_date''))
             (violations d)))"

section \<open>Seizures management\<close>

definition seizure_params ::
  "string \<Rightarrow> int \<Rightarrow> string \<Rightarrow> int \<Rightarrow> string \<Rightarrow> int \<Rightarrow> datetime \<Rightarrow> real option \<Rightarrow>
   string option \<Rightarrow> string option \<Rightarrow> string option \<Rightarrow> (string \<times> pyval) list" where
  "seizure_params seizure_number violation_id item_description item_quantity item_category
       officer_id seizure_date estimated_value serial_number storage_location condition_notes =
     [(''seizure_number'', PStr seizure_number), (''violation_id'', PInt violation_id),
      (''item_description'', PStr item_description), (''item_quantity'', PInt item_quantity),
      (''item_category'', PStr item_category),
      (''estimated_value'', optional PFloat estimated_value),
      (''serial_number'', optional PStr serial_number),
      (''storage_location'', optional PStr storage_location),
      (''officer_id'', PInt officer_id), (''seizure_date'', PDatetime seizure_date),
      (''condition_notes'', optional PStr condition_notes)]"

definition create_seizure ::
  "db \<Rightarrow> datetime \<Rightarrow> string \<Rightarrow> int \<Rightarrow> string \<Rightarrow> int \<Rightarrow> string \<Rightarrow> int \<Rightarrow> datetime \<Rightarrow>
   real option \<Rightarrow> string option \<Rightarrow> string option \<Rightarrow> string option \<Rightarrow> (db_error + int) \<times> db" where
  "create_seizure d now seizure_number violation_id item_description item_quantity item_category
       officer_id seizure_date estimated_value serial_number storage_location condition_notes =
     (case execute_insert seizures_schema now
             (seizure_params seizure_number violation_id item_description item_quantity
                item_category officer_id seizure_date estimated_value serial_number
                storage_location condition_notes) (seizures d) of
        (res, t) \<Rightarrow> (res, d\<lparr>seizures := t\<rparr>))"


definition seizure_allowed_fields :: "string list" where
  "seizure_allowed_fields =
     [''item_description'', ''item_quantity'', ''item_category'', ''estimated_value'',
      ''serial_number'', ''storage_location'', ''status'', ''condition_notes'', ''release_date'',
      ''release_reason'', ''release_authorized_by'', ''photo_evidence_urls'']"

definition update_seizure :: "db \<Rightarrow> datetime \<Rightarrow> int \<Rightarrow> (string \<times> pyval) list \<Rightarrow> bool \<times> db" where
  "update_seizure d now seizure_id kwargs =
     (case update_table seizure_allowed_fields seizures_schema now seizure_id kwargs
             (seizures d) of
        (res, t) \<Rightarrow> (res, d\<lparr>seizures := t\<rparr>))"

definition list_seizures ::
  "db \<Rightarrow> int option \<Rightarrow> string option \<Rightarrow> string option \<Rightarrow> int option \<Rightarrow>
   (string \<times> pyval) list list" where
  "list_seizures d violation_id status item_category officer_id =
     map dict
       (order_by_desc ''seizure_date''
          (select
             (where_if (optional PInt violation_id) (Eq ''violation_id'') @
              where_if (optional PStr status) (Eq ''status'') @
              where_if (optional PStr item_category) (Eq ''item_category'') @
              where_if (optional PInt officer_id) (Eq ''officer_id''))
             (seizures d)))"

section \<open>Infractions management\<close>

definition infraction_params ::
  "string \<Rightarrow> int \<Rightarrow> string \<Rightarrow> string option \<Rightarrow> string option \<Rightarrow> int \<Rightarrow> real option \<Rightarrow>
   real option \<Rightarrow> (string \<times> pyval) list" where
  "infraction_params infraction_number violation_id infraction_type description statute_reference
       points minimum_fine maximum_fine =
     [(''infraction_number'', PStr infraction_number), (''violation_id'', PInt violation_id),
      (''infraction_type'', PStr infraction_type), (''description'', optional PStr description),
      (''statute_reference'', optional PStr statute_reference), (''points'', PInt points),
      (''minimum_fine'', optional PFloat minimum_fine),
      (''maximum_fine'', optional PFloat maximum_fine)]"

definition create_infraction ::
  "db \<Rightarrow> datetime \<Rightarrow> string \<Rightarrow> int \<Rightarrow> string \<Rightarrow> string option \<Rightarrow> string option \<Rightarrow> int \<Rightarrow>
   real option \<Rightarrow> real option \<Rightarrow> (db_error + int) \<times> db" where
  "create_infraction d now infraction_number violation_id infraction_type description
       statute_reference points minimum_fine maximum_fine =
     (case execute_insert infractions_schema now
             (infraction_params infraction_number violation_id infraction_type description
                statute_reference points minimum_fine maximum_fine) (infractions d) of
        (res, t) \<Rightarrow> (res, d\<lparr>infractions := t\<rparr>))"


definition infraction_allowed_fields :: "string list" where
  "infraction_allowed_fields =
     [''infraction_type'', ''description'', ''statute_reference'', ''points'', ''minimum_fine'',
      ''maximum_fine'', ''status'', ''court_appearance_date'', ''court_location'',
      ''case_number'', ''prosecutor_id'', ''judge_id'', ''outcome'', ''sentence_details'',
      ''probation_period_months'']"

definition update_infraction :: "db \<Rightarrow> datetime \<Rightarrow> int \<Rightarrow> (string \<times> pyval) list \<Rightarrow> bool \<times> db" where
  "update_infraction d now infraction_id kwargs =
     (case update_table infraction_allowed_fields infractions_schema now infraction_id kwargs
             (infractions d) of
        (res, t) \<Rightarrow> (res, d\<lparr>infractions := t\<rparr>))"

definition list_infractions ::
  "db \<Rightarrow> int option \<Rightarrow> string option \<Rightarrow> string option \<Rightarrow> (string \<times> pyval) list list" where
  "list_infractions d violation_id status infraction_type =
     map dict
       (order_by_desc ''created_at''
          (select
             (where_if (optional PInt violation_id) (Eq ''violation_id'') @
              where_if (optional PStr status) (Eq ''status'') @
              where_if (optional PStr infraction_type) (Eq ''infraction_type''))
             (infractions d)))"

section \<open>Evidence management\<close>

definition evidence_params ::
  "string \<Rightarrow> int \<Rightarrow> string \<Rightarrow> string \<Rightarrow> int \<Rightarrow> datetime \<Rightarrow> string option \<Rightarrow> int option \<Rightarrow>
   string option \<Rightarrow> string option \<Rightarrow> string option \<Rightarrow> string option \<Rightarrow> (string \<times> pyval) list" where
  "evidence_params evidence_number violation_id evidence_type description collected_by
       collection_date file_path file_size mime_type collection_location storage_location notes =
     [(''evidence_number'', PStr evidence_number), (''violation_id'', PInt violation_id),
      (''evidence_type'', PStr evidence_type), (''description'', PStr description),
      (''collected_by'', PInt collected_by), (''collection_date'', PDatetime collection_date),
      (''file_path'', optional PStr file_path), (''file_size'', optional PInt file_size),
      (''mime_type'', optional PStr mime_type),
      (''collection_location'', optional PStr collection_location),
      (''storage_location'', optional PStr storage_location), (''notes'', optional PStr notes)]"

definition create_evidence ::
  "db \<Rightarrow> datetime \<Rightarrow> string \<Rightarrow> int \<Rightarrow> string \<Rightarrow> string \<Rightarrow> int \<Rightarrow> datetime \<Rightarrow> string option \<Rightarrow>
   int option \<Rightarrow> string option \<Rightarrow> string option \<Rightarrow> string option \<Rightarrow> string option \<Rightarrow>
   (db_error + int) \<times> db" where
  "create_evidence d now evidence_number violation_id evidence_type description collected_by
       collection_date file_path file_size mime_type collection_location storage_location notes =
     (case execute_insert evidence_schema now
             (evidence_params evidence_number violation_id evidence_type description collected_by
                collection_date file_path file_size mime_type collection_location
                storage_location notes) (evidence d) of
        (res, t) \<Rightarrow> (res, d\<lparr>evidence := t\<rparr>))"



definition evidence_allowed_fields :: "string list" where
  "evidence_allowed_fields =
     [''description'', ''storage_location'', ''status'', ''chain_of_custody'', ''notes'']"

definition update_evidence :: "db \<Rightarrow> datetime \<Rightarrow> int \<Rightarrow> (string \<times> pyval) list \<Rightarrow> bool \<times> db" where
  "update_evidence d now evidence_id kwargs =
     (case update_table evidence_allowed_fields evidence_schema now evidence_id kwargs
             (evidence d) of
        (res, t) \<Rightarrow> (res, d\<lparr>evidence := t\<rparr>))"

section \<open>Activity logging\<close>

definition log_activity ::
  "db \<Rightarrow> datetime \<Rightarrow> int \<Rightarrow> string \<Rightarrow> string \<Rightarrow> string option \<Rightarrow> int option \<Rightarrow> string option \<Rightarrow>
   string option \<Rightarrow> (db_error + int) \<times> db" where
  "log_activity d now user_id action_type description entity_type entity_id changes ip_address =
     (case execute_insert activity_log_schema now
             [(''user_id'', PInt user_id), (''action_type'', PStr action_type),
              (''description'', PStr description), (''entity_type'', optional PStr entity_type),
              (''entity_id'', optional PInt entity_id), (''changes'', optional PStr changes),
              (''ip_address'', optional PStr ip_address)] (activity_log d) of
        (res, t) \<Rightarrow> (res, d\<lparr>activity_log := t\<rparr>))"

definition get_activity_log :: "db \<Rightarrow> int option \<Rightarrow> int \<Rightarrow> (string \<times> pyval) list list" where
  "get_activity_log d user_id limit =
     map dict
       (sql_limit limit
          (order_by_desc ''timestamp''
             (select (where_if (optional PInt user_id) (Eq ''user_id'')) (activity_log d))))"

section \<open>Statistics and reporting\<close>

text \<open>
  The only exception that the loops of the statistics methods can raise: \<^verbatim>\<open>+=\<close> of a
  \<^verbatim>\<open>str\<close> to a number.
\<close>

datatype py_error = TypeError

text \<open>
  \<^verbatim>\<open>d[k] = d.get(k, 0) + 1\<close> on a dictionary in insertion order. (Python takes the keys
  \<open>1\<close> and \<open>1.0\<close> for one key; the columns counted here admit texts and NULL only.)
\<close>

definition count_key :: "pyval \<Rightarrow> (pyval \<times> nat) list \<Rightarrow> (pyval \<times> nat) list" where
  "count_key k d = AList.update k ((case map_of d k of Some n \<Rightarrow> n | None \<Rightarrow> 0) + 1) d"

text \<open>\<^verbatim>\<open>total += x\<close>, the total being a number.\<close>

fun add_number :: "real \<Rightarrow> pyval \<Rightarrow> py_error + real" where
  "add_number t (PInt n) = Inr (t + real_of_int n)"
| "add_number t (PFloat x) = Inr (t + x)"
| "add_number t v = Inl TypeError"

text \<open>A \<^verbatim>\<open>for\<close> loop whose body may raise.\<close>

fun for_each :: "('a \<Rightarrow> 's \<Rightarrow> 'e + 's) \<Rightarrow> 'a list \<Rightarrow> 's \<Rightarrow> 'e + 's" where
  "for_each body [] s = Inr s"
| "for_each body (x # xs) s =
     (case body x s of Inl e \<Rightarrow> Inl e | Inr s' \<Rightarrow> for_each body xs s')"

record violation_statistics =
  total_violations :: nat
  violations_by_type :: "(pyval \<times> nat) list"
  violations_by_severity :: "(pyval \<times> nat) list"
  violations_by_status :: "(pyval \<times> nat) list"
  total_fines :: real

text \<open>The body of the loop of \<^verbatim>\<open>get_violation_statistics\<close>.\<close>

definition violation_body ::
  "(string \<times> pyval) list \<Rightarrow> violation_statistics \<Rightarrow> py_error + violation_statistics" where
  "violation_body violation stats =
     (let stats1 = stats\<lparr>violations_by_type :=
                     count_key (item violation ''violation_type'') (violations_by_type stats)\<rparr>;
          stats2 = stats1\<lparr>violations_by_severity :=
                     count_key (item violation ''severity_level'') (violations_by_severity stats1)\<rparr>;
          stats3 = stats2\<lparr>violations_by_status :=
                     count_key (item violation ''status'') (violations_by_status stats2)\<rparr>
      in if truthy (item violation ''fine_amount'') then
           (case add_number (total_fines stats3) (item violation ''fine_amount'') of
              Inl e \<Rightarrow> Inl e
            | Inr x \<Rightarrow> Inr (stats3\<lparr>total_fines := x\<rparr>))
         else Inr stats3)"

definition get_violation_statistics ::
  "db \<Rightarrow> datetime option \<Rightarrow> datetime option \<Rightarrow> py_error + violation_statistics" where
  "get_violation_statistics d start_date end_date =
     (let violations =
            map dict
              (select
                 (where_if (optional PDatetime start_date) (Ge ''violation_date'') @
                  where_if (optional PDatetime end_date) (Le ''violation_date''))
                 (violations d))
      in for_each violation_body violations
           \<lparr>total_violations = length violations, violations_by_type = [],
              violations_by_severity = [], violations_by_status = [], total_fines = 0\<rparr>)"

record seizure_statistics =
  total_seizures :: nat
  seizures_by_category :: "(pyval \<times> nat) list"
  seizures_by_status :: "(pyval \<times> nat) list"
  total_estimated_value :: real

definition seizure_body ::
  "(string \<times> pyval) list \<Rightarrow> seizure_statistics \<Rightarrow> py_error + seizure_statistics" where
  "seizure_body seizure stats =
     (let stats1 = stats\<lparr>seizures_by_category :=
                     count_key (item seizure ''item_category'') (seizures_by_category stats)\<rparr>;
          stats2 = stats1\<lparr>seizures_by_status :=
                     count_key (item seizure ''status'') (seizures_by_status stats1)\<rparr>
      in if truthy (item seizure ''estimated_value'') then
           (case add_number (total_estimated_value stats2) (item seizure ''estimated_value'') of
              Inl e \<Rightarrow> Inl e
            | Inr x \<Rightarrow> Inr (stats2\<lparr>total_estimated_value := x\<rparr>))
         else Inr stats2)"

definition get_seizure_statistics ::
  "db \<Rightarrow> datetime option \<Rightarrow> datetime option \<Rightarrow> py_error + seizure_statistics" where
  "get_seizure_statistics d start_date end_date =
     (let seizures =
            map dict
              (select
                 (where_if (optional PDatetime start_date) (Ge ''seizure_date'') @
                  where_if (optional PDatetime end_date) (Le ''seizure_date''))
                 (seizures d))
      in for_each seizure_body seizures
           \<lparr>total_seizures = length seizures, seizures_by_category = [],
              seizures_by_status = [], total_estimated_value = 0\<rparr>)"

subsection \<open>Officer performance\<close>

fun num_value :: "sqlval \<Rightarrow> real" where
  "num_value (IntV n) = real_of_int n"
| "num_value (RealV x) = x"
| "num_value v = 0"

fun int_value :: "sqlval \<Rightarrow> int" where
  "int_value (IntV n) = n"
| "int_value v = 0"

fun is_int :: "sqlval \<Rightarrow> bool" where
  "is_int (IntV n) = True"
| "is_int v = False"

text \<open>
  \<^verbatim>\<open>SUM(c)\<close>: NULL when no value is non-NULL, an integer when all of them are integers,
  a real otherwise. SQLite reads a text through its numeric prefix, which is not modelled:
  a text counts as \<open>0.0\<close>, which is exact for a text without such a prefix.
\<close>

definition sql_sum :: "sqlval list \<Rightarrow> sqlval" where
  "sql_sum vs =
     (let xs = filter (\<lambda>v. v \<noteq> Null) vs
      in if xs = [] then Null
         else if list_all is_int xs then IntV (sum_list (map int_value xs))
         else RealV (sum_list (map num_value xs)))"

text \<open>\<^verbatim>\<open>GROUP BY c\<close>: two rows are in one group when their keys are equal or both NULL.\<close>

definition same_group :: "sqlval \<Rightarrow> sqlval \<Rightarrow> bool" where
  "same_group a b = (a = b \<or> sql_eq a b)"

fun group_keys :: "sqlval list \<Rightarrow> sqlval list" where
  "group_keys [] = []"
| "group_keys (k # ks) = k # group_keys (filter (\<lambda>x. \<not> same_group k x) ks)"

text \<open>
  \<^verbatim>\<open>SELECT officer_id, COUNT(*) as violations_count, SUM(fine_amount) as total_fines ...
  GROUP BY officer_id ORDER BY violations_count DESC\<close>: the groups in ascending key order,
  then sorted by their count.
\<close>

definition get_officer_performance ::
  "db \<Rightarrow> int option \<Rightarrow> datetime option \<Rightarrow> datetime option \<Rightarrow> (string \<times> pyval) list list" where
  "get_officer_performance d officer_id start_date end_date =
     (let selected =
            select
              (where_if (optional PInt officer_id) (Eq ''officer_id'') @
               where_if (optional PDatetime start_date) (Ge ''violation_date'') @
               where_if (optional PDatetime end_date) (Le ''violation_date''))
              (violations d);
          keys = group_keys (map (\<lambda>r. col r ''officer_id'') (rev (order_by_desc ''officer_id'' selected)));
          groups =
            map (\<lambda>k. let members = filter (\<lambda>r. same_group k (col r ''officer_id'')) selected
                      in [(''officer_id'', k),
                          (''violations_count'', IntV (int (length members))),
                          (''total_fines'', sql_sum (map (\<lambda>r. col r ''fine_amount'') members))])
                keys
      in map dict (order_by_desc ''violations_count'' groups))"

subsection \<open>The daily snapshot\<close>

text \<open>
  \<^verbatim>\<open>INSERT OR REPLACE INTO statistics (date, total_violations, total_seizures, total_fines,
  violations_by_type, violations_by_severity, officer_performance)\<close>: the new row takes
  the next \<^verbatim>\<open>stat_id\<close> and the defaults of \<^verbatim>\<open>total_infractions\<close>, \<^verbatim>\<open>top_violators\<close>,
  \<^verbatim>\<open>created_at\<close> and \<^verbatim>\<open>updated_at\<close>; every row that holds the same \<^verbatim>\<open>date\<close> (the
  UNIQUE column) is deleted before the new row is stored.
\<close>

definition insert_or_replace_statistics ::
  "datetime \<Rightarrow> string \<Rightarrow> int \<Rightarrow> int \<Rightarrow> real \<Rightarrow> (pyval \<times> nat) list \<Rightarrow> (pyval \<times> nat) list \<Rightarrow>
   (string \<times> pyval) list list \<Rightarrow> stat_table \<Rightarrow> stat_table" where
  "insert_or_replace_statistics now date_text n_violations n_seizures fines by_type by_severity
       officer_perf t =
     (let sid = 1 + fold max (map stat_id (stat_rows t)) (max 0 (stat_seq t));
          r = \<lparr>stat_id = sid, date = date_text, stat_row.total_violations = n_violations,
               total_seizures = n_seizures, total_infractions = 0,
               stat_row.total_fines = fines, stat_row.violations_by_type = by_type,
               stat_row.violations_by_severity = by_severity, top_violators = None,
               officer_performance = officer_perf, created_at = utc_timestamp now,
               updated_at = utc_timestamp now\<rparr>
      in \<lparr>stat_rows = filter (\<lambda>x. date x \<noteq> date_text) (stat_rows t) @ [r], stat_seq = sid\<rparr>)"

text \<open>
  \<open>Inl\<close> is an exception that leaves the method: the handler catches \<^verbatim>\<open>sqlite3.Error\<close>
  only, and no statement of the method can fail with one here (the one NOT NULL column
  that the INSERT names is bound to the text of \<^verbatim>\<open>date.date()\<close>).
\<close>

definition save_daily_statistics :: "db \<Rightarrow> datetime \<Rightarrow> datetime \<Rightarrow> (py_error + bool) \<times> db" where
  "save_daily_statistics d now dt =
     (let start_date = dt\<lparr>hour := 0, minute := 0, second := 0\<rparr>;
          end_date = dt\<lparr>hour := 23, minute := 59, second := 59\<rparr>
      in case get_violation_statistics d (Some start_date) (Some end_date) of
           Inl e \<Rightarrow> (Inl e, d)
         | Inr stats \<Rightarrow>
        (case get_seizure_statistics d (Some start_date) (Some end_date) of
           Inl e \<Rightarrow> (Inl e, d)
         | Inr seizure_stats \<Rightarrow>
             (Inr True,
              d\<lparr>statistics :=
                  insert_or_replace_statistics now (iso_date dt)
                    (int (total_violations stats)) (int (total_seizures seizure_stats))
                    (total_fines stats) (violations_by_type stats)
                    (violations_by_severity stats)
                    (get_officer_performance d None (Some start_date) (Some end_date))
                    (statistics d)\<rparr>)))"

definition get_daily_statistics :: "db \<Rightarrow> datetime \<Rightarrow> stat_row option" where
  "get_daily_statistics d dt = find (\<lambda>x. date x = iso_date dt) (stat_rows (statistics d))"

section \<open>The statistics in the words of the specification\<close>





section \<open>Example states\<close>

text \<open>The database after \<^verbatim>\<open>create_tables\<close> on a new file.\<close>

definition empty_table :: table where
  "empty_table = \<lparr>rows = [], seq = 0\<rparr>"

definition empty_db :: db where
  "empty_db =
     \<lparr>users = empty_table, violations = empty_table, seizures = empty_table,
        infractions = empty_table, evidence = empty_table, activity_log = empty_table,
        statistics = \<lparr>stat_rows = [], stat_seq = 0\<rparr>\<rparr>"

definition t0 :: datetime where
  "t0 = \<lparr>year = 2024, month = 3, day = 5, hour = 14, minute = 30, second = 0, microsecond = 0\<rparr>"

definition t1 :: datetime where
  "t1 = \<lparr>year = 2024, month = 3, day = 5, hour = 18, minute = 45, second = 10, microsecond = 0\<rparr>"

text \<open>One violation, as the scenario of the specification creates it.\<close>

definition db1 :: db where
  "db1 = snd (create_violation empty_db t0 ''V-1'' ''Ann'' t0 ''traffic'' ''minor'' ''Main St'' 7
                None None None None None None (Some 150))"

definition violation1 :: row where
  "violation1 =
     [(''violation_id'', IntV 1), (''violation_number'', TextV ''V-1''),
      (''violator_name'', TextV ''Ann''), (''violator_license_number'', Null),
      (''violator_phone'', Null), (''violator_address'', Null),
      (''violation_date'', TextV ''2024-03-05 14:30:00''),
      (''violation_type'', TextV ''traffic''), (''severity_level'', TextV ''minor''),
      (''description'', Null), (''location'', TextV ''Main St''), (''latitude'', Null),
      (''longitude'', Null), (''officer_id'', IntV 7), (''status'', TextV ''open''),
      (''fine_amount'', RealV 150), (''paid_date'', Null), (''notes'', Null),
      (''evidence_count'', IntV 0), (''created_at'', TextV ''2024-03-05 14:30:00''),
      (''updated_at'', TextV ''2024-03-05 14:30:00'')]"



text \<open>The snapshot of 5 March 2024, taken once and taken again four hours later.\<close>

definition db3 :: db where
  "db3 = snd (save_daily_statistics db1 t0 t0)"

definition db4 :: db where
  "db4 = snd (save_daily_statistics db3 t1 t0)"

definition snapshot1 :: stat_row where
  "snapshot1 =
     \<lparr>stat_id = 1, date = ''2024-03-05'', stat_row.total_violations = 1, total_seizures = 0,
        total_infractions = 0, stat_row.total_fines = 150,
        stat_row.violations_by_type = [(PStr ''traffic'', 1)],
        stat_row.violations_by_severity = [(PStr ''minor'', 1)], top_violators = None,
        officer_performance =
          [[(''officer_id'', PInt 7), (''violations_count'', PInt 1),
            (''total_fines'', PFloat 150)]],
        created_at = ''2024-03-05 14:30:00'', updated_at = ''2024-03-05 14:30:00''\<rparr>"

section \<open>Properties of the engine\<close>

lemmas schema_defs = column_def NOT_NULL_def UNIQUE_def CHECK_IN_def DEFAULT_def

lemmas insert_defs =
  execute_insert_def insert_row_def new_row_def violated_def next_rowid_def rowid_def col_def
  check_ok_def sql_eq_def

lemma zpad_numeral: "zpad (numeral k) n = zpad (pred_numeral k) (n div 10) @ [digit n]"
  by (subst numeral_eq_Suc) simp

lemmas clock_defs =
  current_timestamp_def utc_timestamp_def isoformat_def iso_date_def digit_def zpad_numeral

lemma str_le_refl: "str_le s s"
  by (induction s) simp_all

lemma sql_le_refl: "sql_le v v"
  by (cases v) (simp_all add: str_le_refl)

lemma sql_eq_refl: "v \<noteq> Null \<Longrightarrow> sql_eq v v"
  by (simp add: sql_eq_def sql_le_refl)

lemma item_dict: "item (dict r) c = fetch (col r c)"
  by (induction r) (auto simp: item_def dict_def col_def)

lemma db1_eq: "db1 = empty_db\<lparr>violations := \<lparr>rows = [violation1], seq = 1\<rparr>\<rparr>"
  by (simp add: db1_def create_violation_def violations_schema_def violation_params_def
      empty_db_def empty_table_def violation1_def t0_def schema_defs insert_defs clock_defs)

lemma get_violation_db1: "get_violation db1 1 = Some (dict violation1)"
  by (simp add: db1_eq get_violation_def fetch_one_def select_by_id_def violation1_def col_def)


subsection \<open>UPDATE\<close>

lemma no_allowed_key:
  "set (map fst kwargs) \<inter> set allowed = {} \<Longrightarrow> filter (\<lambda>(k, v). k \<in> set allowed) kwargs = []"
  by (auto simp: filter_empty_conv)


lemma update_table_no_fields:
  "filter (\<lambda>(k, v). k \<in> set allowed) kwargs = [] \<Longrightarrow>
   update_table allowed sch now i kwargs t = (False, t)"
  by (simp add: update_table_def)

lemma update_rows_Inr:
  "update_rows sch sets i done rs = Inr out \<Longrightarrow>
   out = done @ map (\<lambda>r. if col r (pkey sch) = IntV i then assign sch sets r else r) rs"
proof (induction rs arbitrary: "done")
  case Nil
  then show ?case by simp
next
  case (Cons a rs)
  show ?case
  proof (cases "col a (pkey sch) = IntV i")
    case True
    with Cons.prems have "update_rows sch sets i (done @ [assign sch sets a]) rs = Inr out"
      by (simp add: Let_def split: option.splits)
    from Cons.IH [OF this] True show ?thesis by simp
  next
    case False
    with Cons.prems have "update_rows sch sets i (done @ [a]) rs = Inr out" by simp
    from Cons.IH [OF this] False show ?thesis by simp
  qed
qed





lemma col_update: "col (AList.update k v r) c = (if c = k then v else col r c)"
  by (simp add: col_def update_conv')

lemma col_assign_other: "c \<notin> fst ` set sets \<Longrightarrow> col (assign sch sets r) c = col r c"
  unfolding assign_def
  by (induction sets arbitrary: r) (auto simp: col_update)

lemma find_map_same_key:
  assumes "find (\<lambda>r. col r pk = IntV v) rs = Some r"
      and "\<And>x. col (f x) pk = col x pk"
  shows "find (\<lambda>r. col r pk = IntV v) (map f rs) = Some (f r)"
  using assms(1) by (induction rs) (auto simp: assms(2))

text \<open>
  An \<^verbatim>\<open>update_*\<close> call leaves the primary key and every column outside its allow-list
  (but \<^verbatim>\<open>updated_at\<close>) as they were, in every row.
\<close>

lemma update_table_keeps:
  assumes "fetch_one pk v t = Some r"
      and "update_table allowed sch now i kwargs t = (b, t')"
      and "pk = pkey sch"
      and "pk \<notin> set allowed" and "pk \<noteq> ''updated_at''"
      and "c \<notin> set allowed" and "c \<noteq> ''updated_at''"
  shows "\<exists>r'. fetch_one pk v t' = Some r' \<and> item r' c = item r c"
proof (cases "t' = t")
  case True
  with assms(1) show ?thesis by simp
next
  case False
  define sets where
    "sets = map (\<lambda>(k, v). (k, bind v))
              (filter (\<lambda>(k, v). k \<in> set allowed) kwargs @ [(''updated_at'', PDatetime now)])"
  define f where "f = (\<lambda>r. if col r (pkey sch) = IntV i then assign sch sets r else r)"
  from False assms(2) obtain rs where rs: "update_rows sch sets i [] (rows t) = Inr rs"
    and t': "t' = t\<lparr>rows := rs\<rparr>"
    by (auto simp: update_table_def Let_def sets_def split: if_splits sum.splits)
  from update_rows_Inr [OF rs] have out: "rs = map f (rows t)"
    by (simp add: f_def)
  have keys: "fst ` set sets \<subseteq> set allowed \<union> {''updated_at''}"
    by (auto simp: sets_def)
  with assms(4-7) have "pk \<notin> fst ` set sets" and "c \<notin> fst ` set sets"
    by auto
  then have same: "col (f x) pk = col x pk" "col (f x) c = col x c" for x
    by (simp_all add: f_def col_assign_other)
  from assms(1) obtain r0 where r0: "find (\<lambda>r. col r pk = IntV v) (rows t) = Some r0"
    and r: "r = dict r0"
    by (auto simp: fetch_one_def select_by_id_def)
  from find_map_same_key [OF r0, of f] same(1)
  have "find (\<lambda>r. col r pk = IntV v) (map f (rows t)) = Some (f r0)"
    by simp
  then have "fetch_one pk v t' = Some (dict (f r0))"
    by (simp add: fetch_one_def select_by_id_def t' out)
  moreover have "item (dict (f r0)) c = item r c"
    by (simp add: item_dict r same(2))
  ultimately show ?thesis by blast
qed

subsection \<open>INSERT\<close>

lemma fold_max_ge_init: "(a::int) \<le> fold max xs a"
  by (induction xs arbitrary: a) (auto intro: order_trans [OF max.cobounded2])





lemma map_of_columns:
  "map_of (map (\<lambda>c. (cname c, g c)) cs) c = map_option g (find (\<lambda>x. cname x = c) cs)"
  by (induction cs) auto

lemma col_new_row:
  "col (new_row sch now k ps) c =
     (if c = pkey sch then IntV k
      else case find (\<lambda>x. cname x = c) (columns sch) of
             None \<Rightarrow> Null
           | Some x \<Rightarrow> apply_affinity (affinity x)
                        (case map_of ps c of Some v \<Rightarrow> v | None \<Rightarrow> default_value now (dflt x)))"
proof (cases "find (\<lambda>x. cname x = c) (columns sch)")
  case None
  then show ?thesis
    by (simp add: col_def new_row_def map_of_columns)
next
  case (Some x)
  then have "cname x = c"
    by (auto simp: find_Some_iff)
  with Some show ?thesis
    by (simp add: col_def new_row_def map_of_columns)
qed



lemma violated_unique:
  assumes "c \<in> set cs" and "unique c"
      and "list_ex (\<lambda>r'. sql_eq (col r' (cname c)) (col r (cname c))) others"
  shows "violated cs others r \<noteq> None"
proof -
  from assms have
    "find (\<lambda>c. unique c \<and> list_ex (\<lambda>r'. sql_eq (col r' (cname c)) (col r (cname c))) others) cs
       \<noteq> None"
    by (auto simp: find_None_iff)
  then show ?thesis
    by (auto simp: violated_def split: option.splits)
qed

lemma violated_Unique:
  assumes "find (\<lambda>c. not_null c \<and> col r (cname c) = Null) cs = None"
      and "find (\<lambda>c. \<not> check_ok c (col r (cname c))) cs = None"
      and "find (\<lambda>c. unique c \<and> list_ex (\<lambda>r'. sql_eq (col r' (cname c)) (col r (cname c))) others) cs
             = Some c"
  shows "violated cs others r = Some (Unique (cname c))"
  using assms by (simp add: violated_def)



lemma affinity_null: "apply_affinity a Null = Null"
  by (cases a) simp_all

lemma affinity_textv: "apply_affinity a (TextV s) = TextV s"
  by (cases a) simp_all

lemma affinity_optional:
  "apply_affinity a (bind (optional PStr x)) = bind (optional PStr x)"
  "apply_affinity REAL (bind (optional PFloat y)) = bind (optional PFloat y)"
  "apply_affinity INTEGER (bind (optional PInt z)) = bind (optional PInt z)"
  by (cases x; cases y; cases z; simp add: affinity_null affinity_textv)+





section \<open>Partial updates\<close>

text \<open>
  C5: on every entity, an update whose keyword arguments are empty or name no allow-listed
  field returns False ("nothing changed", not an exception) and leaves the database,
  and so every stored field of every row with its \<^verbatim>\<open>updated_at\<close>, as it was.
\<close>

theorem update_without_allowed_field_is_noop:
  "(set (map fst kwargs) \<inter> set user_allowed_fields = {} \<longrightarrow>
      update_user d now i kwargs = (False, d)) \<and>
   (set (map fst kwargs) \<inter> set violation_allowed_fields = {} \<longrightarrow>
      update_violation d now i kwargs = (False, d)) \<and>
   (set (map fst kwargs) \<inter> set seizure_allowed_fields = {} \<longrightarrow>
      update_seizure d now i kwargs = (False, d)) \<and>
   (set (map fst kwargs) \<inter> set infraction_allowed_fields = {} \<longrightarrow>
      update_infraction d now i kwargs = (False, d)) \<and>
   (set (map fst kwargs) \<inter> set evidence_allowed_fields = {} \<longrightarrow>
      update_evidence d now i kwargs = (False, d))"
  by (simp add: update_user_def update_violation_def update_seizure_def update_infraction_def
      update_evidence_def update_table_no_fields no_allowed_key)

theorem update_without_allowed_field_is_noop_witness:
  "get_violation db1 1 = Some (dict violation1) \<and>
   update_violation db1 t1 1 [(''violation_number'', PStr ''V-2''), (''evidence_count'', PInt 3)]
     = (False, db1) \<and>
   update_violation db1 t1 1 [] = (False, db1)"
  using update_without_allowed_field_is_noop
          [of "[(''violation_number'', PStr ''V-2''), (''evidence_count'', PInt 3)]" db1 t1 1]
        update_without_allowed_field_is_noop [of "[]" db1 t1 1]
  by (simp add: get_violation_db1 violation_allowed_fields_def)




text \<open>
  C9: whatever keyword arguments \<^verbatim>\<open>update_violation\<close> is called with, on whatever id,
  every violation that existed before the call exists after it with the same
  \<^verbatim>\<open>violation_number\<close>.
\<close>

theorem update_violation_keeps_violation_number:
  assumes "get_violation d v = Some r"
      and "update_violation d now i kwargs = (b, d')"
  shows "\<exists>r'. get_violation d' v = Some r' \<and>
              item r' ''violation_number'' = item r ''violation_number''"
proof -
  from assms(2) obtain t' where
    upd: "update_table violation_allowed_fields violations_schema now i kwargs (violations d)
            = (b, t')"
    and d': "d' = d\<lparr>violations := t'\<rparr>"
    by (auto simp: update_violation_def split: prod.splits)
  from assms(1) have "fetch_one ''violation_id'' v (violations d) = Some r"
    by (simp add: get_violation_def)
  from update_table_keeps [OF this upd, of "''violation_number''"]
  show ?thesis
    by (simp add: get_violation_def d' violations_schema_def violation_allowed_fields_def)
qed

theorem update_violation_keeps_violation_number_witness:
  "\<exists>r'. get_violation
          (snd (update_violation db1 t1 1
                  [(''violation_number'', PStr ''V-2''), (''status'', PStr ''closed'')])) 1
          = Some r' \<and>
        item r' ''violation_number'' = PStr ''V-1''"
  using update_violation_keeps_violation_number
          [OF get_violation_db1, of t1 1
            "[(''violation_number'', PStr ''V-2''), (''status'', PStr ''closed'')]"
            "fst (update_violation db1 t1 1
                    [(''violation_number'', PStr ''V-2''), (''status'', PStr ''closed'')])"
            "snd (update_violation db1 t1 1
                    [(''violation_number'', PStr ''V-2''), (''status'', PStr ''closed'')])"]
  by (simp add: item_dict violation1_def col_def)

section \<open>Listings\<close>

text \<open>
  C10: a filter argument that is falsy (the integer 0, the empty string) is tested with
  \<^verbatim>\<open>if x:\<close> and adds no condition to the query, so the call returns what the call
  without that filter returns.
\<close>

theorem falsy_filter_is_no_filter:
  "list_violations d (Some 0) status violation_type severity_level start_date end_date =
     list_violations d None status violation_type severity_level start_date end_date \<and>
   list_violations d officer_id (Some []) violation_type severity_level start_date end_date =
     list_violations d officer_id None violation_type severity_level start_date end_date \<and>
   list_seizures d (Some 0) status item_category officer_id =
     list_seizures d None status item_category officer_id \<and>
   list_seizures d violation_id (Some []) item_category officer_id =
     list_seizures d violation_id None item_category officer_id \<and>
   get_activity_log d (Some 0) limit = get_activity_log d None limit"
  by (simp add: list_violations_def list_seizures_def get_activity_log_def where_if_def)

text \<open>With \<^verbatim>\<open>officer_id=0\<close> the listing returns the violation of officer 7.\<close>

theorem falsy_filter_is_no_filter_witness:
  "list_violations db1 (Some 0) None None None None None = [dict violation1] \<and>
   item (dict violation1) ''officer_id'' = PInt 7"
proof -
  have "list_violations db1 None None None None None None = [dict violation1]"
    by (simp add: db1_eq list_violations_def where_if_def select_def order_by_desc_def)
  with falsy_filter_is_no_filter [of db1 None None None None None]
  show ?thesis
    by (simp add: item_dict violation1_def col_def)
qed

section \<open>Creation\<close>




text \<open>
  C3: when a violation with number \<open>n\<close> is stored, \<^verbatim>\<open>create_violation\<close> with the same
  number raises \<^verbatim>\<open>sqlite3.IntegrityError\<close> and the database is exactly what it was: no
  row is added and no row is changed. When the type and the severity given are in their
  domains, the constraint that failed is the UNIQUE constraint of \<^verbatim>\<open>violation_number\<close>.
\<close>

theorem create_violation_duplicate_number:
  assumes "\<exists>r \<in> set (rows (violations d)). col r ''violation_number'' = TextV n"
  shows "\<exists>c. create_violation d now n violator_name violation_date violation_type
               severity_level location officer_id violator_license_number violator_phone
               violator_address description latitude longitude fine_amount
             = (Inl (IntegrityError c), d) \<and>
             (violation_type \<in> set [''traffic'', ''parking'', ''criminal'', ''administrative'',
                                   ''other''] \<and>
              severity_level \<in> set [''minor'', ''moderate'', ''serious'', ''critical''] \<longrightarrow>
              c = Unique ''violation_number'')"
proof -
  let ?ps = "map (\<lambda>(c, v). (c, bind v))
               (violation_params n violator_name violation_date violation_type severity_level
                  location officer_id violator_license_number violator_phone violator_address
                  description latitude longitude fine_amount)"
  let ?k = "next_rowid ''violation_id'' (violations d)"
  let ?r = "new_row violations_schema now ?k ?ps"
  let ?cs = "columns violations_schema"
  let ?others = "rows (violations d)"
  have number: "col ?r ''violation_number'' = TextV n"
    by (simp add: col_new_row violations_schema_def schema_defs violation_params_def)
  from assms obtain r0 where "r0 \<in> set ?others" and "col r0 ''violation_number'' = TextV n"
    by blast
  then have "sql_eq (col r0 ''violation_number'') (TextV n)"
    by (simp add: sql_eq_refl)
  with \<open>r0 \<in> set ?others\<close> have dup:
    "list_ex (\<lambda>r'. sql_eq (col r' ''violation_number'') (TextV n)) ?others"
    unfolding list_ex_iff by blast
  have "NOT_NULL (UNIQUE (column ''violation_number'' TEXT)) \<in> set ?cs"
    by (simp add: violations_schema_def)
  from violated_unique [OF this, of ?r ?others] number dup
  obtain c where c: "violated ?cs ?others ?r = Some c"
    by (auto simp: schema_defs)
  then have result:
    "create_violation d now n violator_name violation_date violation_type severity_level
       location officer_id violator_license_number violator_phone violator_address description
       latitude longitude fine_amount = (Inl (IntegrityError c), d)"
    by (simp add: create_violation_def execute_insert_def insert_row_def Let_def
        violations_schema_def)
  have "c = Unique ''violation_number''"
    if "violation_type \<in> set [''traffic'', ''parking'', ''criminal'', ''administrative'',
                               ''other'']"
      and "severity_level \<in> set [''minor'', ''moderate'', ''serious'', ''critical'']"
  proof -
    have nn: "find (\<lambda>c. not_null c \<and> col ?r (cname c) = Null) ?cs = None"
      by (simp add: col_new_row violations_schema_def schema_defs violation_params_def)
    have ck: "find (\<lambda>c. \<not> check_ok c (col ?r (cname c))) ?cs = None"
      using that
      by (simp add: col_new_row violations_schema_def schema_defs violation_params_def
          check_ok_def affinity_optional)
    have un: "find (\<lambda>c. unique c \<and>
                         list_ex (\<lambda>r'. sql_eq (col r' (cname c)) (col ?r (cname c))) ?others) ?cs
                = Some (NOT_NULL (UNIQUE (column ''violation_number'' TEXT)))"
      using dup number
      by (simp add: violations_schema_def schema_defs)
    from violated_Unique [OF nn ck un] c show ?thesis
      by (simp add: schema_defs)
  qed
  with result show ?thesis by blast
qed

theorem create_violation_duplicate_number_witness:
  "create_violation db1 t1 ''V-1'' ''Bob'' t1 ''parking'' ''minor'' ''Elm St'' 8
     None None None None None None None
     = (Inl (IntegrityError (Unique ''violation_number'')), db1) \<and>
   rows (violations db1) = [violation1]"
proof -
  have "\<exists>r \<in> set (rows (violations db1)). col r ''violation_number'' = TextV ''V-1''"
    by (simp add: db1_eq violation1_def col_def)
  from create_violation_duplicate_number
         [OF this, of t1 "''Bob''" t1 "''parking''" "''minor''" "''Elm St''" 8
            None None None None None None None]
  show ?thesis
    by (auto simp: db1_eq)
qed









section \<open>Referential integrity\<close>

text \<open>
  C1 at a failing input: on the database that \<^verbatim>\<open>create_tables\<close> leaves, where no
  violation exists, \<^verbatim>\<open>create_seizure\<close>, \<^verbatim>\<open>create_infraction\<close> and \<^verbatim>\<open>create_evidence\<close>
  with \<^verbatim>\<open>violation_id = 9999\<close> raise nothing, return the new key and store the row.
\<close>

theorem create_child_of_absent_violation:
  "get_violation empty_db 9999 = None \<and>
   fst (create_seizure empty_db t0 ''S-1'' 9999 ''car'' 1 ''vehicle'' 7 t0
          None None None None) = Inr 1 \<and>
   map (\<lambda>r. col r ''violation_id'')
     (rows (seizures (snd (create_seizure empty_db t0 ''S-1'' 9999 ''car'' 1 ''vehicle'' 7 t0
                             None None None None)))) = [IntV 9999] \<and>
   fst (create_infraction empty_db t0 ''I-1'' 9999 ''speeding'' None None 0 None None)
     = Inr 1 \<and>
   map (\<lambda>r. col r ''violation_id'')
     (rows (infractions (snd (create_infraction empty_db t0 ''I-1'' 9999 ''speeding''
                                None None 0 None None)))) = [IntV 9999] \<and>
   fst (create_evidence empty_db t0 ''E-1'' 9999 ''photo'' ''dashcam still'' 7 t0
          None None None None None None) = Inr 1 \<and>
   map (\<lambda>r. col r ''violation_id'')
     (rows (evidence (snd (create_evidence empty_db t0 ''E-1'' 9999 ''photo''
                             ''dashcam still'' 7 t0 None None None None None None))))
     = [IntV 9999]"
proof -
  have "get_violation empty_db 9999 = None"
    by (simp add: get_violation_def fetch_one_def select_by_id_def empty_db_def empty_table_def)
  moreover
  have "create_seizure empty_db t0 ''S-1'' 9999 ''car'' 1 ''vehicle'' 7 t0 None None None None
          = (Inr 1, empty_db\<lparr>seizures :=
               \<lparr>rows = [new_row seizures_schema t0 1
                           (map (\<lambda>(c, v). (c, bind v))
                              (seizure_params ''S-1'' 9999 ''car'' 1 ''vehicle'' 7 t0
                                 None None None None))],
                  seq = 1\<rparr>\<rparr>)"
    by (simp add: create_seizure_def seizures_schema_def seizure_params_def empty_db_def
        empty_table_def schema_defs insert_defs)
  moreover
  have "create_infraction empty_db t0 ''I-1'' 9999 ''speeding'' None None 0 None None
          = (Inr 1, empty_db\<lparr>infractions :=
               \<lparr>rows = [new_row infractions_schema t0 1
                           (map (\<lambda>(c, v). (c, bind v))
                              (infraction_params ''I-1'' 9999 ''speeding'' None None 0
                                 None None))],
                  seq = 1\<rparr>\<rparr>)"
    by (simp add: create_infraction_def infractions_schema_def infraction_params_def
        empty_db_def empty_table_def schema_defs insert_defs)
  moreover
  have "create_evidence empty_db t0 ''E-1'' 9999 ''photo'' ''dashcam still'' 7 t0
          None None None None None None
          = (Inr 1, empty_db\<lparr>evidence :=
               \<lparr>rows = [new_row evidence_schema t0 1
                           (map (\<lambda>(c, v). (c, bind v))
                              (evidence_params ''E-1'' 9999 ''photo'' ''dashcam still'' 7 t0
                                 None None None None None None))],
                  seq = 1\<rparr>\<rparr>)"
    by (simp add: create_evidence_def evidence_schema_def evidence_params_def empty_db_def
        empty_table_def schema_defs insert_defs)
  ultimately show ?thesis
    by (simp add: col_new_row seizures_schema_def infractions_schema_def evidence_schema_def
        seizure_params_def infraction_params_def evidence_params_def schema_defs)
qed

section \<open>The evidence count\<close>




section \<open>Statistics\<close>


















section \<open>The daily snapshot\<close>

lemma stat_rows_after_replace:
  "filter (\<lambda>x. date x = date_text)
     (stat_rows (insert_or_replace_statistics now date_text nv ns f bt bs op t))
   = [\<lparr>stat_id = 1 + fold max (map stat_id (stat_rows t)) (max 0 (stat_seq t)), date = date_text,
        stat_row.total_violations = nv, total_seizures = ns, total_infractions = 0,
        stat_row.total_fines = f, stat_row.violations_by_type = bt,
        stat_row.violations_by_severity = bs, top_violators = None,
        officer_performance = op, created_at = utc_timestamp now,
        updated_at = utc_timestamp now\<rparr>]"
  by (simp add: insert_or_replace_statistics_def Let_def)

lemma stat_seq_after_replace:
  "stat_seq (insert_or_replace_statistics now date_text nv ns f bt bs op t)
   = 1 + fold max (map stat_id (stat_rows t)) (max 0 (stat_seq t))"
  by (simp add: insert_or_replace_statistics_def Let_def)

lemma next_stat_id_greater:
  "stat_seq t < 1 + fold max (map stat_id (stat_rows t)) (max 0 (stat_seq t))"
proof -
  have "stat_seq t \<le> max 0 (stat_seq t)" by simp
  also have "\<dots> \<le> fold max (map stat_id (stat_rows t)) (max 0 (stat_seq t))"
    by (rule fold_max_ge_init)
  finally show ?thesis by simp
qed

lemma save_daily_statistics_Inr:
  assumes "save_daily_statistics d now dt = (Inr True, d')"
  obtains stats seizure_stats where
    "get_violation_statistics d (Some (dt\<lparr>hour := 0, minute := 0, second := 0\<rparr>))
       (Some (dt\<lparr>hour := 23, minute := 59, second := 59\<rparr>)) = Inr stats"
    "get_seizure_statistics d (Some (dt\<lparr>hour := 0, minute := 0, second := 0\<rparr>))
       (Some (dt\<lparr>hour := 23, minute := 59, second := 59\<rparr>)) = Inr seizure_stats"
    "d' = d\<lparr>statistics :=
              insert_or_replace_statistics now (iso_date dt)
                (int (total_violations stats)) (int (total_seizures seizure_stats))
                (total_fines stats) (violations_by_type stats) (violations_by_severity stats)
                (get_officer_performance d None
                   (Some (dt\<lparr>hour := 0, minute := 0, second := 0\<rparr>))
                   (Some (dt\<lparr>hour := 23, minute := 59, second := 59\<rparr>)))
                (statistics d)\<rparr>"
  using assms
  by (auto simp: save_daily_statistics_def Let_def split: sum.splits)

lemma statistics_frame:
  "get_violation_statistics (d\<lparr>statistics := t\<rparr>) a b = get_violation_statistics d a b"
  "get_seizure_statistics (d\<lparr>statistics := t\<rparr>) a b = get_seizure_statistics d a b"
  "get_officer_performance (d\<lparr>statistics := t\<rparr>) oid a b = get_officer_performance d oid a b"
  by (simp_all add: get_violation_statistics_def get_seizure_statistics_def
      get_officer_performance_def)

text \<open>
  C8, as the code has it: when \<^verbatim>\<open>save_daily_statistics\<close> has returned True for a date,
  running it again for that date over the same entity tables returns True and leaves
  exactly one statistics row keyed by the date, as the first run did. The second row
  equals the first in the date and in every computed column; \<^verbatim>\<open>INSERT OR REPLACE\<close>
  deletes the old row and stores a new one, so \<^verbatim>\<open>stat_id\<close> is a new, larger key and
  \<^verbatim>\<open>created_at\<close> and \<^verbatim>\<open>updated_at\<close> are the time of the second run.
\<close>

theorem save_daily_statistics_twice:
  assumes "save_daily_statistics d now dt = (Inr True, d1)"
  shows "\<exists>d2 r1 r2.
           save_daily_statistics d1 now' dt = (Inr True, d2) \<and>
           filter (\<lambda>x. date x = iso_date dt) (stat_rows (statistics d1)) = [r1] \<and>
           filter (\<lambda>x. date x = iso_date dt) (stat_rows (statistics d2)) = [r2] \<and>
           r2 = r1\<lparr>stat_id := stat_id r2, created_at := utc_timestamp now',
                    updated_at := utc_timestamp now'\<rparr> \<and>
           stat_id r1 < stat_id r2"
proof -
  from assms obtain stats seizure_stats where
    vs: "get_violation_statistics d (Some (dt\<lparr>hour := 0, minute := 0, second := 0\<rparr>))
           (Some (dt\<lparr>hour := 23, minute := 59, second := 59\<rparr>)) = Inr stats"
    and ss: "get_seizure_statistics d (Some (dt\<lparr>hour := 0, minute := 0, second := 0\<rparr>))
           (Some (dt\<lparr>hour := 23, minute := 59, second := 59\<rparr>)) = Inr seizure_stats"
    and d1: "d1 = d\<lparr>statistics :=
              insert_or_replace_statistics now (iso_date dt)
                (int (total_violations stats)) (int (total_seizures seizure_stats))
                (total_fines stats) (violations_by_type stats) (violations_by_severity stats)
                (get_officer_performance d None
                   (Some (dt\<lparr>hour := 0, minute := 0, second := 0\<rparr>))
                   (Some (dt\<lparr>hour := 23, minute := 59, second := 59\<rparr>)))
                (statistics d)\<rparr>"
    by (rule save_daily_statistics_Inr)
  define tab1 where "tab1 = statistics d1"
  define perf where
    "perf = get_officer_performance d None (Some (dt\<lparr>hour := 0, minute := 0, second := 0\<rparr>))
              (Some (dt\<lparr>hour := 23, minute := 59, second := 59\<rparr>))"
  have tab1: "tab1 = insert_or_replace_statistics now (iso_date dt)
                (int (total_violations stats)) (int (total_seizures seizure_stats))
                (total_fines stats) (violations_by_type stats) (violations_by_severity stats)
                perf (statistics d)"
    by (simp add: tab1_def d1 perf_def)
  define d2 where
    "d2 = d1\<lparr>statistics :=
              insert_or_replace_statistics now' (iso_date dt)
                (int (total_violations stats)) (int (total_seizures seizure_stats))
                (total_fines stats) (violations_by_type stats) (violations_by_severity stats)
                perf tab1\<rparr>"
  have second: "save_daily_statistics d1 now' dt = (Inr True, d2)"
    unfolding d2_def tab1_def perf_def
    by (simp add: save_daily_statistics_def Let_def d1 statistics_frame vs ss)
  have rows1: "filter (\<lambda>x. date x = iso_date dt) (stat_rows (statistics d1))
      = [\<lparr>stat_id = 1 + fold max (map stat_id (stat_rows (statistics d)))
                         (max 0 (stat_seq (statistics d))),
          date = iso_date dt, stat_row.total_violations = int (total_violations stats),
          total_seizures = int (total_seizures seizure_stats), total_infractions = 0,
          stat_row.total_fines = total_fines stats,
          stat_row.violations_by_type = violations_by_type stats,
          stat_row.violations_by_severity = violations_by_severity stats,
          top_violators = None, officer_performance = perf,
          created_at = utc_timestamp now, updated_at = utc_timestamp now\<rparr>]"
    unfolding tab1_def [symmetric] tab1 by (rule stat_rows_after_replace)
  have rows2: "filter (\<lambda>x. date x = iso_date dt) (stat_rows (statistics d2))
      = [\<lparr>stat_id = 1 + fold max (map stat_id (stat_rows tab1)) (max 0 (stat_seq tab1)),
          date = iso_date dt, stat_row.total_violations = int (total_violations stats),
          total_seizures = int (total_seizures seizure_stats), total_infractions = 0,
          stat_row.total_fines = total_fines stats,
          stat_row.violations_by_type = violations_by_type stats,
          stat_row.violations_by_severity = violations_by_severity stats,
          top_violators = None, officer_performance = perf,
          created_at = utc_timestamp now', updated_at = utc_timestamp now'\<rparr>]"
    by (simp add: d2_def stat_rows_after_replace)
  have seq1: "stat_seq tab1 = 1 + fold max (map stat_id (stat_rows (statistics d)))
                                  (max 0 (stat_seq (statistics d)))"
    unfolding tab1 by (rule stat_seq_after_replace)
  have less: "1 + fold max (map stat_id (stat_rows (statistics d)))
                    (max 0 (stat_seq (statistics d)))
              < 1 + fold max (map stat_id (stat_rows tab1)) (max 0 (stat_seq tab1))"
    using next_stat_id_greater [of tab1] by (simp only: seq1)
  show ?thesis
    apply (intro exI conjI)
        apply (rule second)
       apply (rule rows1)
      apply (rule rows2)
     apply simp
    apply (use less in simp)
    done
qed


lemma save_daily_statistics_db1_value:
  "save_daily_statistics db1 t0 t0
     = (Inr True, db1\<lparr>statistics := \<lparr>stat_rows = [snapshot1], stat_seq = 1\<rparr>\<rparr>)"
  by (simp add: db1_eq save_daily_statistics_def get_violation_statistics_def
      get_seizure_statistics_def get_officer_performance_def insert_or_replace_statistics_def
      where_if_def select_def order_by_desc_def empty_db_def empty_table_def violation1_def
      snapshot1_def t0_def clock_defs col_def sql_ge_def sql_eq_def violation_body_def Let_def
      dict_def item_def count_key_def sql_sum_def same_group_def)

lemma db3_eq: "db3 = db1\<lparr>statistics := \<lparr>stat_rows = [snapshot1], stat_seq = 1\<rparr>\<rparr>"
  by (simp add: db3_def save_daily_statistics_db1_value)

lemma save_daily_statistics_db1: "save_daily_statistics db1 t0 t0 = (Inr True, db3)"
  by (simp add: db3_eq save_daily_statistics_db1_value)

lemma save_daily_statistics_db3:
  "save_daily_statistics db3 t1 t0
     = (Inr True,
        db1\<lparr>statistics :=
              \<lparr>stat_rows = [snapshot1\<lparr>stat_id := 2, created_at := ''2024-03-05 18:45:10'',
                                       updated_at := ''2024-03-05 18:45:10''\<rparr>],
                 stat_seq = 2\<rparr>\<rparr>)"
  by (simp add: db3_eq db1_eq save_daily_statistics_def get_violation_statistics_def
      get_seizure_statistics_def get_officer_performance_def insert_or_replace_statistics_def
      where_if_def select_def order_by_desc_def empty_db_def empty_table_def violation1_def
      snapshot1_def t0_def t1_def clock_defs col_def sql_ge_def sql_eq_def violation_body_def
      Let_def dict_def item_def count_key_def sql_sum_def same_group_def)

theorem save_daily_statistics_twice_witness:
  "save_daily_statistics db1 t0 t0 = (Inr True, db3) \<and>
   (\<exists>d2 r1 r2.
      save_daily_statistics db3 t1 t0 = (Inr True, d2) \<and>
      filter (\<lambda>x. date x = iso_date t0) (stat_rows (statistics db3)) = [r1] \<and>
      filter (\<lambda>x. date x = iso_date t0) (stat_rows (statistics d2)) = [r2] \<and>
      r2 = r1\<lparr>stat_id := stat_id r2, created_at := utc_timestamp t1,
               updated_at := utc_timestamp t1\<rparr> \<and>
      stat_id r1 < stat_id r2)"
  using save_daily_statistics_twice [OF save_daily_statistics_db1, of t1]
    save_daily_statistics_db1
  by (rule_tac conjI)

text \<open>
  The claim C8 as the specification states it (the row after two runs is identical to
  the row of a single run) is false: the row of the second run has another \<^verbatim>\<open>stat_id\<close>
  and other timestamps.
\<close>

theorem save_daily_statistics_counterexample:
  "save_daily_statistics db1 t0 t0 = (Inr True, db3) \<and>
   save_daily_statistics db3 t1 t0 = (Inr True, db4) \<and>
   get_daily_statistics db3 t0 = Some snapshot1 \<and>
   get_daily_statistics db4 t0
     = Some (snapshot1\<lparr>stat_id := 2, created_at := ''2024-03-05 18:45:10'',
                         updated_at := ''2024-03-05 18:45:10''\<rparr>) \<and>
   get_daily_statistics db4 t0 \<noteq> get_daily_statistics db3 t0"
proof -
  have iso: "iso_date t0 = ''2024-03-05''"
    by (simp add: t0_def clock_defs)
  have db4: "db4 = db1\<lparr>statistics :=
                         \<lparr>stat_rows = [snapshot1\<lparr>stat_id := 2,
                                         created_at := ''2024-03-05 18:45:10'',
                                         updated_at := ''2024-03-05 18:45:10''\<rparr>],
                            stat_seq = 2\<rparr>\<rparr>"
    by (simp add: db4_def save_daily_statistics_db3)
  have three: "get_daily_statistics db3 t0 = Some snapshot1"
    by (simp add: get_daily_statistics_def db3_eq iso snapshot1_def)
  have four: "get_daily_statistics db4 t0
                = Some (snapshot1\<lparr>stat_id := 2, created_at := ''2024-03-05 18:45:10'',
                                    updated_at := ''2024-03-05 18:45:10''\<rparr>)"
    by (simp add: get_daily_statistics_def db4 iso snapshot1_def)
  have "get_daily_statistics db4 t0 \<noteq> get_daily_statistics db3 t0"
    unfolding three four by (simp add: snapshot1_def)
  with three four show ?thesis
    by (simp add: save_daily_statistics_db1 save_daily_statistics_db3 db4)
qed

end
